theory Spec2Isabelle
  imports Complex_Main
begin

section \<open>JavaScript strings\<close>

text \<open>
  Strings are lists of characters. The embedding covers ASCII text: \<open>toLowerCase\<close> folds
  the letters A to Z, and the white space of \<open>trim\<close> and of the regular-expression class
  \<open>\s\<close> is tab, line feed, vertical tab, form feed, carriage return and space.
\<close>

definition toLowerChar :: "char \<Rightarrow> char" where
  "toLowerChar c =
     (case map_of (zip ''ABCDEFGHIJKLMNOPQRSTUVWXYZ'' ''abcdefghijklmnopqrstuvwxyz'') c of
        Some d \<Rightarrow> d
      | None \<Rightarrow> c)"

definition toLowerCase :: "string \<Rightarrow> string" where
  "toLowerCase s = map toLowerChar s"

definition isSpace :: "char \<Rightarrow> bool" where
  "isSpace c = (c \<in> set [CHR 0x09, CHR 0x0A, CHR 0x0B, CHR 0x0C, CHR 0x0D, CHR '' ''])"

definition trim :: "string \<Rightarrow> string" where
  "trim s = rev (dropWhile isSpace (rev (dropWhile isSpace s)))"

definition startsWith :: "string \<Rightarrow> string \<Rightarrow> bool" where
  "startsWith s p = (take (length p) s = p)"

definition endsWith :: "string \<Rightarrow> string \<Rightarrow> bool" where
  "endsWith s p = (length p \<le> length s \<and> drop (length s - length p) s = p)"

text \<open>\<open>s.substring(0, n)\<close>.\<close>

definition substring0 :: "string \<Rightarrow> nat \<Rightarrow> string" where
  "substring0 s n = take n s"

text \<open>The decimal text of a non-negative number, as a template literal prints it.\<close>

fun showNat :: "nat \<Rightarrow> string" where
  "showNat n =
     (if n < 10 then [''0123456789'' ! n]
      else showNat (n div 10) @ [''0123456789'' ! (n mod 10)])"

declare showNat.simps [simp del]

text \<open>A value is falsy when it is \<open>undefined\<close> (\<open>None\<close>) or the empty string.\<close>

definition falsy :: "string option \<Rightarrow> bool" where
  "falsy v = (v = None \<or> v = Some [])"

section \<open>Paths (\<open>path.extname\<close>, \<open>path.parse\<close>, POSIX flavour)\<close>

text \<open>
  The last component of a path: trailing separators are skipped, then everything after the
  last remaining separator is taken.
\<close>

definition lastComponent :: "string \<Rightarrow> string" where
  "lastComponent p =
     rev (takeWhile (\<lambda>c. c \<noteq> CHR ''/'') (dropWhile (\<lambda>c. c = CHR ''/'') (rev p)))"

text \<open>
  \<open>path.extname\<close>: from the last dot of the last component to its end; empty when there is
  no dot, when the last dot is the component's first character, and for the component
  \<open>..\<close>.
\<close>

definition extname :: "string \<Rightarrow> string" where
  "extname p =
     (let b = lastComponent p;
          r = takeWhile (\<lambda>c. c \<noteq> CHR ''.'') (rev b)
      in if CHR ''.'' \<notin> set b then []
         else if length b - length r - 1 = 0 \<or> b = ''..'' then []
         else CHR ''.'' # rev r)"

text \<open>\<open>path.parse(p).name\<close>: the last component without its extension.\<close>

definition parseName :: "string \<Rightarrow> string" where
  "parseName p = (let b = lastComponent p in take (length b - length (extname p)) b)"

section \<open>Responses\<close>

text \<open>
  A bcrypt digest, symbolically: the salt that was drawn and the text that was hashed, under
  a constructor that only \<open>bcrypt_compare\<close> opens. bcrypt reads the first 72 characters
  of a password, so a digest verifies the texts that agree on them with the text it hashes.
\<close>

datatype digest = Bcrypt string string

definition bcrypt_hash :: "string \<Rightarrow> string \<Rightarrow> digest" where
  "bcrypt_hash plaintext salt = Bcrypt salt plaintext"

definition bcrypt_compare :: "string \<Rightarrow> digest \<Rightarrow> bool" where
  "bcrypt_compare candidate d =
     (case d of Bcrypt salt plaintext \<Rightarrow> take 72 candidate = take 72 plaintext)"

datatype jsval = JStr string | JNum int | JId nat | JDigest digest

type_synonym json = "(string \<times> jsval) list"

text \<open>
  A message of a schema validator. The built-in validators (required, minlength,
  maxlength, enum) are named by kind and path; a custom validator carries the message that
  the schema gives it.
\<close>

datatype validator_error =
    Required string
  | MinLength string
  | MaxLength string
  | NotInEnum string
  | Custom string

text \<open>
  The token that \<open>jwt.sign(payload, secret, {expiresIn})\<close> returns: the payload, the key
  it is signed with, and the claims \<open>iat\<close> and \<open>exp\<close> (\<open>expiresAt\<close>), in seconds.
\<close>

record jwt =
  payload :: json
  signedWith :: string
  iat :: int
  expiresAt :: int

text \<open>A JavaScript number, as far as the pagination arithmetic can produce one.\<close>

datatype jsnum = Finite int | Infinity | NaN

record pagination =
  currentPage :: int
  totalPages :: jsnum
  totalUsers :: int
  hasNextPage :: bool
  hasPrevPage :: bool

text \<open>
  The envelope \<open>res.status(n).json({success, message, ...})\<close>; a key the handler does not
  send at all is \<open>None\<close>.
\<close>

record response =
  status :: nat
  success :: bool
  message :: string
  error :: "string option"
  errors :: "validator_error list option"
  user :: "json option"
  users :: "json list option"
  token :: "jwt option"
  pagination :: "pagination option"

definition reply :: "nat \<Rightarrow> bool \<Rightarrow> string \<Rightarrow> response" where
  "reply st ok msg =
     \<lparr>status = st, success = ok, message = msg, error = None, errors = None,
      user = None, users = None, token = None, pagination = None\<rparr>"

section \<open>Upload handler (config/multer.js)\<close>

text \<open>
  The part of the multipart request that arrives in the field named \<open>profilePicture\<close>, as
  multer hands it to \<open>fileFilter\<close>, with the number of bytes the part carries (\<open>size\<close>,
  here \<open>sizeBytes\<close>).
\<close>

record upfile =
  originalname :: string
  mimetype :: string
  sizeBytes :: nat

datatype upload_error = MulterError string | Error string

definition allowedMimeTypes :: "string list" where
  "allowedMimeTypes =
     [''image/jpeg'', ''image/jpg'', ''image/png'', ''image/gif'', ''image/webp'',
      ''image/bmp'', ''image/tiff'']"

definition allowedExtensions :: "string list" where
  "allowedExtensions = [''.jpg'', ''.jpeg'', ''.png'', ''.gif'', ''.webp'', ''.bmp'', ''.tiff'']"

definition fileFilter :: "upfile \<Rightarrow> upload_error + bool" where
  "fileFilter file =
     (let fileExtension = toLowerCase (extname (originalname file))
      in if mimetype file \<in> set allowedMimeTypes \<and> fileExtension \<in> set allowedExtensions
         then Inr True
         else Inl (Error
           ''Invalid file type. Only JPEG, PNG, GIF, WebP, BMP, and TIFF images are allowed.''))"

text \<open>\<open>limits.fileSize\<close>: 5 * 1024 * 1024 bytes.\<close>

definition fileSize :: nat where
  "fileSize = 5 * 1024 * 1024"

text \<open>
  The \<open>filename\<close> callback of the disk storage: the sanitised base name cut to 20
  characters, the clock in milliseconds, 16 random hexadecimal digits and the lower-cased
  extension. The clock and the random digits are inputs.
\<close>

definition isAlnum :: "char \<Rightarrow> bool" where
  "isAlnum c =
     (c \<in> set ''abcdefghijklmnopqrstuvwxyzABCDEFGHIJKLMNOPQRSTUVWXYZ0123456789'')"

definition sanitize :: "string \<Rightarrow> string" where
  "sanitize s = map (\<lambda>c. if isAlnum c then c else CHR ''_'') s"

definition filename :: "nat \<Rightarrow> string \<Rightarrow> upfile \<Rightarrow> string" where
  "filename timestamp randomString file =
     (let extension = toLowerCase (extname (originalname file));
          originalName = substring0 (sanitize (parseName (originalname file))) 20
      in originalName @ ''-'' @ showNat timestamp @ ''-'' @ randomString @ extension)"

text \<open>
  \<open>uploadProfilePicture\<close>, that is \<open>multer(...).single("profilePicture")\<close>, on a request
  with one file in that field: the filter decides first; an accepted file is written under
  its generated name until the bytes read reach \<open>fileSize\<close>, at which point multer stops
  and reports \<open>LIMIT_FILE_SIZE\<close>: a part of exactly \<open>fileSize\<close> bytes is refused like a
  larger one. The result is \<open>req.file.filename\<close>.
\<close>

definition uploadProfilePicture :: "nat \<Rightarrow> string \<Rightarrow> upfile \<Rightarrow> upload_error + string" where
  "uploadProfilePicture timestamp randomString file =
     (case fileFilter file of
        Inl e \<Rightarrow> Inl e
      | Inr _ \<Rightarrow>
          if sizeBytes file \<ge> fileSize then Inl (MulterError ''LIMIT_FILE_SIZE'')
          else Inr (filename timestamp randomString file))"

definition handleMulterError :: "upload_error \<Rightarrow> response" where
  "handleMulterError e =
     (case e of
        MulterError code \<Rightarrow>
          if code = ''LIMIT_FILE_SIZE'' then
            (reply 400 False ''File size too large. Maximum size allowed is 5MB.'')
              \<lparr>error := Some ''FILE_TOO_LARGE''\<rparr>
          else if code = ''LIMIT_FILE_COUNT'' then
            (reply 400 False ''Too many files. Only one file is allowed.'')
              \<lparr>error := Some ''TOO_MANY_FILES''\<rparr>
          else if code = ''LIMIT_UNEXPECTED_FILE'' then
            (reply 400 False ''Unexpected field name. Use 'profilePicture' as field name.'')
              \<lparr>error := Some ''UNEXPECTED_FIELD''\<rparr>
          else (reply 400 False ''File upload error occurred.'') \<lparr>error := Some code\<rparr>
      | Error msg \<Rightarrow>
          (reply 400 False (if msg = [] then ''File upload failed.'' else msg))
            \<lparr>error := Some ''UPLOAD_ERROR''\<rparr>)"

section \<open>Requests\<close>

text \<open>
  \<open>req.body\<close> and \<open>req.query\<close> hold text or nothing under each key; \<open>page\<close> and \<open>limit\<close>
  hold the integer that their text denotes. \<open>req.file\<close> (\<open>uploadedFile\<close>) is the name under
  which multer stored the uploaded file, \<open>req.params.userId\<close> the text of the path segment.
\<close>

record body =
  b_username :: "string option"
  b_email :: "string option"
  b_password :: "string option"
  b_role :: "string option"

record query =
  q_page :: "int option"
  q_limit :: "int option"
  q_role :: "string option"
  q_search :: "string option"

record request =
  protocol :: string
  host :: string
  body :: body
  uploadedFile :: "string option"
  userId :: string
  query :: query

text \<open>
  What a handler reads from outside the request: the clock (milliseconds), the identifier
  and the salt that the next insertion draws, the environment variable \<open>JWT_SECRET\<close>, and
  two choices of the store that the source does not fix: \<open>pick\<close>, which of several
  documents matching a lookup it returns, and \<open>pcre\<close>, its regular-expression engine on
  the expressions that the embedding does not interpret itself (\<open>None\<close> when the engine
  refuses the expression, otherwise the test whether a text contains a match).
\<close>

record env =
  now :: int
  newId :: nat
  newSalt :: string
  JWT_SECRET :: "string option"
  pick :: nat
  pcre :: "string \<Rightarrow> (string \<Rightarrow> bool) option"

text \<open>
  \<open>generateImageUrl(filename, req)\<close>; \<open>null\<close> for a missing or empty file name.
\<close>

definition generateImageUrl :: "string \<Rightarrow> request \<Rightarrow> string option" where
  "generateImageUrl fname req =
     (if fname = [] then None
      else Some (protocol req @ ''://'' @ host req @ ''/uploads/profile-pictures/'' @ fname))"

text \<open>
  \<open>isValidImageUrl\<close> of config/multer.js:
  \<^verbatim>\<open>/^(https?:\/\/.*\.(?:png|jpg|jpeg|gif|webp|bmp|tiff))$/i\<close>. The text starts with the scheme,
  has no line break after it (\<open>.\<close> matches none) and ends with a dot and one of the
  extensions.
\<close>

definition isLineBreak :: "char \<Rightarrow> bool" where
  "isLineBreak c = (c = CHR 0x0A \<or> c = CHR 0x0D)"

definition urlRegexTest :: "string list \<Rightarrow> string \<Rightarrow> bool" where
  "urlRegexTest exts v =
     list_ex (\<lambda>scheme.
        startsWith v scheme \<and>
        \<not> list_ex isLineBreak (drop (length scheme) v) \<and>
        list_ex (\<lambda>e. endsWith (drop (length scheme) v) (''.'' @ e)) exts)
       [''http://'', ''https://'']"

definition isValidImageUrl :: "string \<Rightarrow> bool" where
  "isValidImageUrl url =
     urlRegexTest [''png'', ''jpg'', ''jpeg'', ''gif'', ''webp'', ''bmp'', ''tiff'']
       (toLowerCase url)"

section \<open>User model (models/authModel.js)\<close>

record user_doc =
  uid :: nat
  username :: string
  email :: string
  password :: digest
  profilePicture :: string
  role :: string
  createdAt :: int
  updatedAt :: int

type_synonym store = "user_doc list"

text \<open>
  The setters of the schema: \<open>trim\<close> on \<open>username\<close>, \<open>trim\<close> and \<open>lowercase\<close> on
  \<open>email\<close>. Mongoose runs them on every value assigned to the path of a document and,
  when it casts a query filter, on the value that the filter compares the path with.
\<close>

definition setUsername :: "string \<Rightarrow> string" where
  "setUsername v = trim v"

definition setEmail :: "string \<Rightarrow> string" where
  "setEmail v = toLowerCase (trim v)"

text \<open>
  The validator of \<open>email\<close>, and the same expression in \<open>createAuth\<close>:
  \<^verbatim>\<open>/^[^\s@]+@[^\s@]+\.[^\s@]+$/\<close>. The text has no white space and one \<open>@\<close>, something
  before it, and after it a dot that is neither the first nor the last character.
\<close>

definition emailRegexTest :: "string \<Rightarrow> bool" where
  "emailRegexTest v =
     (let local = takeWhile (\<lambda>c. c \<noteq> CHR ''@'') v;
          rest = dropWhile (\<lambda>c. c \<noteq> CHR ''@'') v
      in local \<noteq> [] \<and> rest \<noteq> [] \<and> \<not> list_ex isSpace v \<and>
         CHR ''@'' \<notin> set (tl rest) \<and> CHR ''.'' \<in> set (butlast (tl (tl rest))))"

text \<open>
  The validator of \<open>profilePicture\<close>:
  \<^verbatim>\<open>/^(https?:\/\/.*\.(?:png|jpg|jpeg|gif|webp))$/\<close>, case-sensitive.
\<close>

definition profilePictureValidator :: "string \<Rightarrow> bool" where
  "profilePictureValidator v = urlRegexTest [''png'', ''jpg'', ''jpeg'', ''gif'', ''webp''] v"

definition defaultProfilePicture :: string where
  "defaultProfilePicture =
     ''https://res.cloudinary.com/dz1qj3x8h/image/upload/v1735681234/novanector/default-profile-picture.png''"

definition roleEnum :: "string list" where
  "roleEnum = [''admin'', ''instructor'', ''student'']"

definition validateUsername :: "string \<Rightarrow> validator_error list" where
  "validateUsername v =
     (if v = [] then [Required ''username'']
      else if length v < 3 then [MinLength ''username'']
      else if length v > 20 then [MaxLength ''username'']
      else [])"

definition validateEmail :: "string \<Rightarrow> validator_error list" where
  "validateEmail v =
     (if v = [] then [Required ''email'']
      else if \<not> emailRegexTest v then [Custom (v @ '' is not a valid email!'')]
      else [])"

definition validatePassword :: "string \<Rightarrow> validator_error list" where
  "validatePassword v =
     (if v = [] then [Required ''password'']
      else if length v < 9 then [MinLength ''password'']
      else [])"

text \<open>The value given for \<open>profilePicture\<close>: \<open>undefined\<close>, \<open>null\<close> or a text.\<close>

datatype picture = Undefined | Null | Url string

definition validateProfilePicture :: "picture \<Rightarrow> validator_error list" where
  "validateProfilePicture p =
     (case p of
        Undefined \<Rightarrow> []
      | Null \<Rightarrow> [Custom ''null is not a valid image URL!'']
      | Url v \<Rightarrow>
          if profilePictureValidator v then []
          else [Custom (v @ '' is not a valid image URL!'')])"

definition validateRole :: "string \<Rightarrow> validator_error list" where
  "validateRole v = (if v \<in> set roleEnum then [] else [NotInEnum ''role''])"

text \<open>
  \<open>toObject\<close> lists the paths of the document; the method \<open>toJSON\<close> of the schema deletes
  the key \<open>password\<close> from that object.
\<close>

definition toObject :: "user_doc \<Rightarrow> json" where
  "toObject u =
     [(''_id'', JId (uid u)),
      (''username'', JStr (username u)),
      (''email'', JStr (email u)),
      (''password'', JDigest (password u)),
      (''profilePicture'', JStr (profilePicture u)),
      (''role'', JStr (role u)),
      (''createdAt'', JNum (createdAt u)),
      (''updatedAt'', JNum (updatedAt u)),
      (''__v'', JNum 0)]"

definition deleteKey :: "string \<Rightarrow> json \<Rightarrow> json" where
  "deleteKey k obj = filter (\<lambda>kv. fst kv \<noteq> k) obj"

definition toJSON :: "user_doc \<Rightarrow> json" where
  "toJSON u = deleteKey ''password'' (toObject u)"

definition comparePassword :: "user_doc \<Rightarrow> string \<Rightarrow> bool" where
  "comparePassword u candidatePassword = bcrypt_compare candidatePassword (password u)"

section \<open>Store\<close>

text \<open>
  The collection is the list of its documents. The unique indexes of the schema
  (\<open>username\<close>, then \<open>email\<close>) refuse a write that would give two documents the same
  value; the refusal names the index. A lookup by one such path, or by identifier, has at
  most one document to return: \<open>findOne\<close> and \<open>findById\<close> return the first that
  satisfies the filter. A lookup that several documents can satisfy returns one of them,
  and which one is the store's choice: \<open>findOneAmong\<close> returns the match that the number
  \<open>pick\<close> selects.
\<close>

definition findOneAmong :: "nat \<Rightarrow> (user_doc \<Rightarrow> bool) \<Rightarrow> store \<Rightarrow> user_doc option" where
  "findOneAmong p flt s =
     (case filter flt s of
        [] \<Rightarrow> None
      | m # ms \<Rightarrow> Some ((m # ms) ! (p mod length (m # ms))))"

text \<open>
  An identifier is written as 24 hexadecimal digits; \<open>castObjectId\<close> reads them as a
  number. Any other text is no identifier: the cast fails (\<open>None\<close>), the lookup throws, and
  the \<open>catch\<close> of the handler answers with the internal error.
\<close>

definition hexDigit :: "char \<Rightarrow> nat option" where
  "hexDigit c =
     map_of (zip ''0123456789abcdef'' [0, 1, 2, 3, 4, 5, 6, 7, 8, 9, 10, 11, 12, 13, 14, 15])
       (toLowerChar c)"

fun hexValue :: "nat \<Rightarrow> string \<Rightarrow> nat option" where
  "hexValue n [] = Some n"
| "hexValue n (c # cs) =
     (case hexDigit c of None \<Rightarrow> None | Some v \<Rightarrow> hexValue (16 * n + v) cs)"

definition castObjectId :: "string \<Rightarrow> nat option" where
  "castObjectId t = (if length t = 24 then hexValue 0 t else None)"

definition findOne :: "(user_doc \<Rightarrow> bool) \<Rightarrow> store \<Rightarrow> user_doc option" where
  "findOne flt s = find flt s"

definition findById :: "nat \<Rightarrow> store \<Rightarrow> user_doc option" where
  "findById i s = find (\<lambda>u. uid u = i) s"

definition duplicateKey :: "user_doc \<Rightarrow> store \<Rightarrow> string option" where
  "duplicateKey d others =
     (if list_ex (\<lambda>u. username u = username d) others then Some ''username''
      else if list_ex (\<lambda>u. email u = email d) others then Some ''email''
      else None)"

fun removeFirst :: "(user_doc \<Rightarrow> bool) \<Rightarrow> store \<Rightarrow> store" where
  "removeFirst P [] = []"
| "removeFirst P (u # us) = (if P u then us else u # removeFirst P us)"

fun replaceFirst :: "(user_doc \<Rightarrow> bool) \<Rightarrow> user_doc \<Rightarrow> store \<Rightarrow> store" where
  "replaceFirst P d [] = []"
| "replaceFirst P d (u # us) = (if P u then d # us else u # replaceFirst P d us)"

section \<open>Regular expressions of the user search\<close>

text \<open>
  \<open>getAllUsers\<close> hands the text of \<open>search\<close> to the store as a regular expression with
  option \<open>i\<close>. The embedding interprets the expressions made of ordinary characters and
  the dot: an ordinary character matches itself in either case, the dot any character but
  a line feed, and the expression is searched for at every position of the subject. An
  expression that contains another metacharacter is left to the engine of the store
  (\<open>pcre\<close>), which refuses it or says which texts contain a match.
\<close>

datatype rx_atom = Lit char | AnyChar

definition isMeta :: "char \<Rightarrow> bool" where
  "isMeta c = (c \<in> set ''^$*+?()[]{}|'' \<or> c = CHR 0x5C)"

definition parseRegex :: "string \<Rightarrow> rx_atom list option" where
  "parseRegex p =
     (if list_ex isMeta p then None
      else Some (map (\<lambda>c. if c = CHR ''.'' then AnyChar else Lit c) p))"

fun atomMatches :: "rx_atom \<Rightarrow> char \<Rightarrow> bool" where
  "atomMatches (Lit l) c = (toLowerChar l = toLowerChar c)"
| "atomMatches AnyChar c = (c \<noteq> CHR 0x0A)"

fun matchHere :: "rx_atom list \<Rightarrow> string \<Rightarrow> bool" where
  "matchHere [] cs = True"
| "matchHere (a # as) [] = False"
| "matchHere (a # as) (c # cs) = (atomMatches a c \<and> matchHere as cs)"

fun regexSearch :: "rx_atom list \<Rightarrow> string \<Rightarrow> bool" where
  "regexSearch as [] = matchHere as []"
| "regexSearch as (c # cs) = (matchHere as (c # cs) \<or> regexSearch as cs)"

definition compileRegex ::
  "(string \<Rightarrow> (string \<Rightarrow> bool) option) \<Rightarrow> string \<Rightarrow> (string \<Rightarrow> bool) option" where
  "compileRegex engine p =
     (case parseRegex p of Some rx \<Rightarrow> Some (regexSearch rx) | None \<Rightarrow> engine p)"

section \<open>Account service (controllers/authController.js)\<close>

definition str :: "string option \<Rightarrow> string" where
  "str v = (case v of None \<Rightarrow> [] | Some t \<Rightarrow> t)"

text \<open>
  \<open>jwt.sign(payload, secret, {expiresIn})\<close>: the token records the payload and the key it
  is signed with, is issued at the clock's second, and expires \<open>expiresIn\<close> seconds later.
\<close>

definition jwt_sign :: "env \<Rightarrow> json \<Rightarrow> string \<Rightarrow> int \<Rightarrow> jwt" where
  "jwt_sign e pl secret expiresIn =
     \<lparr>payload = pl, signedWith = secret, iat = now e div 1000,
      expiresAt = now e div 1000 + expiresIn\<rparr>"

definition pictureOf :: "request \<Rightarrow> picture" where
  "pictureOf req =
     (case uploadedFile req of
        None \<Rightarrow> Undefined
      | Some fname \<Rightarrow> (case generateImageUrl fname req of None \<Rightarrow> Null | Some v \<Rightarrow> Url v))"

text \<open>
  \<open>save\<close> validates a new document on every path. On a document read from the store it
  validates the required paths (\<open>username\<close>, \<open>email\<close>; the stored password is a digest of
  60 characters and passes) and the paths whose value the handler changed.
\<close>

definition validateNew :: "string \<Rightarrow> user_doc \<Rightarrow> picture \<Rightarrow> validator_error list" where
  "validateNew plaintext d pic =
     validateUsername (username d) @ validateEmail (email d) @ validatePassword plaintext @
     validateProfilePicture pic @ validateRole (role d)"

definition validateModified :: "user_doc \<Rightarrow> user_doc \<Rightarrow> picture \<Rightarrow> validator_error list" where
  "validateModified old d pic =
     validateUsername (username d) @ validateEmail (email d) @
     (case pic of
        Url v \<Rightarrow> if v = profilePicture old then [] else validateProfilePicture pic
      | _ \<Rightarrow> validateProfilePicture pic) @
     (if role d = role old then [] else validateRole (role d))"

definition createAuth :: "env \<Rightarrow> store \<Rightarrow> request \<Rightarrow> response \<times> store" where
  "createAuth e s req =
     (let un = b_username (body req); em = b_email (body req);
          pw = b_password (body req); rl = b_role (body req)
      in if falsy un \<or> falsy em \<or> falsy pw then
           (reply 400 False ''Username, email, and password are required.'', s)
         else if length (str pw) < 9 then
           (reply 400 False ''Password must be at least 9 characters long.'', s)
         else if \<not> emailRegexTest (str em) then
           (reply 400 False ''Please provide a valid email address.'', s)
         else
           (case findOneAmong (pick e)
                   (\<lambda>u. email u = setEmail (str em) \<or> username u = setUsername (str un)) s of
              Some existingUser \<Rightarrow>
                (reply 400 False
                   (if email existingUser = str em then ''User with this email already exists.''
                    else ''Username is already taken.''), s)
            | None \<Rightarrow>
                (let profilePictureUrl = pictureOf req;
                     newUser =
                       \<lparr>uid = newId e,
                        username = setUsername (str un),
                        email = setEmail (str em),
                        password = bcrypt_hash (str pw) (newSalt e),
                        profilePicture =
                          (case profilePictureUrl of Url v \<Rightarrow> v | _ \<Rightarrow> defaultProfilePicture),
                        role = (if falsy rl then ''student'' else str rl),
                        createdAt = now e,
                        updatedAt = now e\<rparr>;
                     errs = validateNew (str pw) newUser profilePictureUrl
                 in if errs \<noteq> [] then
                      ((reply 400 False ''Validation error.'') \<lparr>errors := Some errs\<rparr>, s)
                    else
                      (case duplicateKey newUser s of
                         Some field \<Rightarrow> (reply 400 False (field @ '' already exists.''), s)
                       | None \<Rightarrow>
                           ((reply 201 True ''User created successfully.'')
                              \<lparr>user := Some (toJSON newUser)\<rparr>,
                            s @ [newUser])))))"

definition loginAuth :: "env \<Rightarrow> store \<Rightarrow> request \<Rightarrow> response \<times> store" where
  "loginAuth e s req =
     (let em = b_email (body req); pw = b_password (body req)
      in if falsy em \<or> falsy pw then
           (reply 400 False ''Email and password are required.'', s)
         else
           (case findOne (\<lambda>u. email u = setEmail (toLowerCase (str em))) s of
              None \<Rightarrow> (reply 401 False ''Invalid email or password.'', s)
            | Some u \<Rightarrow>
                if \<not> comparePassword u (str pw) then
                  (reply 401 False ''Invalid email or password.'', s)
                else
                  (let tk = jwt_sign e
                         [(''userId'', JId (uid u)),
                          (''email'', JStr (email u)),
                          (''username'', JStr (username u)),
                          (''role'', JStr (role u))]
                         (if falsy (JWT_SECRET e) then ''your_jwt_secret''
                          else str (JWT_SECRET e))
                         (24 * 60 * 60)
                   in ((reply 200 True ''Login successful.'')
                         \<lparr>user := Some (toJSON u), token := Some tk\<rparr>, s))))"

definition updateUserProfile :: "env \<Rightarrow> store \<Rightarrow> request \<Rightarrow> response \<times> store" where
  "updateUserProfile e s req =
     (let un = b_username (body req); em = b_email (body req); rl = b_role (body req)
      in case castObjectId (userId req) of
           None \<Rightarrow> (reply 500 False ''Internal server error.'', s)
         | Some i \<Rightarrow>
             (case findById i s of
                None \<Rightarrow> (reply 404 False ''User not found.'', s)
              | Some u \<Rightarrow>
                  if \<not> falsy em \<and> str em \<noteq> email u \<and>
                     findOne (\<lambda>v. email v = setEmail (str em)) s \<noteq> None then
                    (reply 400 False ''Email is already taken.'', s)
                  else if \<not> falsy un \<and> str un \<noteq> username u \<and>
                     findOne (\<lambda>v. username v = setUsername (str un)) s \<noteq> None then
                    (reply 400 False ''Username is already taken.'', s)
                  else
                    (let pic = pictureOf req;
                         u1 = (case pic of Url v \<Rightarrow> u\<lparr>profilePicture := v\<rparr> | _ \<Rightarrow> u);
                         u2 = (if falsy un then u1
                               else u1\<lparr>username := setUsername (str un)\<rparr>);
                         u3 = (if falsy em then u2 else u2\<lparr>email := setEmail (str em)\<rparr>);
                         u4 = (if falsy rl then u3 else u3\<lparr>role := str rl\<rparr>);
                         u5 = (if u4 = u then u4 else u4\<lparr>updatedAt := now e\<rparr>);
                         errs = validateModified u u5 pic
                     in if errs \<noteq> [] then
                          ((reply 400 False ''Validation error.'') \<lparr>errors := Some errs\<rparr>, s)
                        else if duplicateKey u5 (filter (\<lambda>v. uid v \<noteq> uid u) s) \<noteq> None then
                          (reply 500 False ''Internal server error.'', s)
                        else
                          ((reply 200 True ''Profile updated successfully.'')
                             \<lparr>user := Some (toJSON u5)\<rparr>,
                           replaceFirst (\<lambda>v. uid v = uid u) u5 s))))"

definition updateProfilePicture :: "env \<Rightarrow> store \<Rightarrow> request \<Rightarrow> response \<times> store" where
  "updateProfilePicture e s req =
     (case uploadedFile req of
        None \<Rightarrow> (reply 400 False ''No file uploaded.'', s)
      | Some fname \<Rightarrow>
          (case castObjectId (userId req) of
             None \<Rightarrow> (reply 500 False ''Internal server error.'', s)
           | Some i \<Rightarrow>
               (case findById i s of
                  None \<Rightarrow> (reply 404 False ''User not found.'', s)
                | Some u \<Rightarrow>
                    (let pic = pictureOf req;
                         u1 = (case pic of Url v \<Rightarrow> u\<lparr>profilePicture := v\<rparr> | _ \<Rightarrow> u);
                         u2 = (if u1 = u then u1 else u1\<lparr>updatedAt := now e\<rparr>)
                     in if validateModified u u2 pic \<noteq> [] then
                          (reply 500 False ''Internal server error.'', s)
                        else
                          ((reply 200 True ''Profile picture updated successfully.'')
                             \<lparr>user := Some (toJSON u2)\<rparr>,
                           replaceFirst (\<lambda>v. uid v = uid u) u2 s)))))"

definition getSingleUser :: "store \<Rightarrow> request \<Rightarrow> response \<times> store" where
  "getSingleUser s req =
     (case castObjectId (userId req) of
        None \<Rightarrow> (reply 500 False ''Internal server error.'', s)
      | Some i \<Rightarrow>
          (case findById i s of
             None \<Rightarrow> (reply 404 False ''User not found.'', s)
           | Some u \<Rightarrow>
               ((reply 200 True ''User retrieved successfully.'')
                  \<lparr>user := Some (toJSON u)\<rparr>, s)))"

text \<open>
  The filter of \<open>getAllUsers\<close>: the role, when one is given, is compared as it is; the search
  expression, when one is given, is looked for in \<open>username\<close> or in \<open>email\<close>.
\<close>

definition matchesQuery :: "query \<Rightarrow> (string \<Rightarrow> bool) \<Rightarrow> user_doc \<Rightarrow> bool" where
  "matchesQuery q rx u =
     ((falsy (q_role q) \<or> role u = str (q_role q)) \<and>
      (falsy (q_search q) \<or> rx (username u) \<or> rx (email u)))"

text \<open>\<open>sort({createdAt: -1})\<close>; documents created at the same instant keep their order.\<close>

definition sortNewestFirst :: "user_doc list \<Rightarrow> user_doc list" where
  "sortNewestFirst us = sort_key (\<lambda>u. - createdAt u) us"

text \<open>
  \<open>limit(n)\<close> of the store: 0 sets no limit, a negative number limits to its absolute value.
\<close>

definition applyLimit :: "int \<Rightarrow> 'a list \<Rightarrow> 'a list" where
  "applyLimit n xs = (if n = 0 then xs else take (nat \<bar>n\<bar>) xs)"

text \<open>\<open>Math.ceil(a / b)\<close> on integers; division by zero gives \<open>Infinity\<close> or \<open>NaN\<close>.\<close>

definition ceilDiv :: "nat \<Rightarrow> int \<Rightarrow> jsnum" where
  "ceilDiv a b =
     (if b = 0 then (if a = 0 then NaN else Infinity)
      else Finite (- ((- int a) div b)))"

text \<open>\<open>a < b\<close> for an integer \<open>a\<close>.\<close>

fun jsLess :: "int \<Rightarrow> jsnum \<Rightarrow> bool" where
  "jsLess a (Finite b) = (a < b)"
| "jsLess a Infinity = True"
| "jsLess a NaN = False"

text \<open>
  \<open>select("-password")\<close> leaves the password out of each document read; \<open>res.json\<close> then
  serialises each through \<open>toJSON\<close>.
\<close>

definition selectMinusPassword :: "user_doc \<Rightarrow> json" where
  "selectMinusPassword u = deleteKey ''password'' (toObject u)"

text \<open>
  The store sorts, then skips, then limits, whatever the order of the calls that build
  the query; it refuses a negative \<open>skip\<close> and an expression that its engine does not
  accept, which the handler's \<open>catch\<close> turns into the internal error.
\<close>

definition getAllUsers :: "env \<Rightarrow> store \<Rightarrow> request \<Rightarrow> response \<times> store" where
  "getAllUsers e s req =
     (let q = query req;
          page = (case q_page q of None \<Rightarrow> 1 | Some p \<Rightarrow> p);
          limit = (case q_limit q of None \<Rightarrow> 10 | Some l \<Rightarrow> l)
      in case compileRegex (pcre e) (str (q_search q)) of
           None \<Rightarrow> (reply 500 False ''Internal server error.'', s)
         | Some rx \<Rightarrow>
             (let skip = (page - 1) * limit
              in if skip < 0 then (reply 500 False ''Internal server error.'', s)
                 else
                   (let found = applyLimit limit
                          (drop (nat skip) (sortNewestFirst (filter (matchesQuery q rx) s)));
                        totalUsers = length (filter (matchesQuery q rx) s);
                        totalPages = ceilDiv totalUsers limit
                    in ((reply 200 True ''Users retrieved successfully.'')
                         \<lparr>users := Some
                            (map (\<lambda>u. deleteKey ''password'' (selectMinusPassword u)) found),
                          pagination := Some
                            \<lparr>currentPage = page, totalPages = totalPages,
                             totalUsers = int totalUsers,
                             hasNextPage = jsLess page totalPages,
                             hasPrevPage = (page > 1)\<rparr>\<rparr>, s))))"

definition deleteUser :: "store \<Rightarrow> request \<Rightarrow> response \<times> store" where
  "deleteUser s req =
     (case castObjectId (userId req) of
        None \<Rightarrow> (reply 500 False ''Internal server error.'', s)
      | Some i \<Rightarrow>
          (case findById i s of
             None \<Rightarrow> (reply 404 False ''User not found.'', s)
           | Some u \<Rightarrow>
               (reply 200 True ''User deleted successfully.'',
                removeFirst (\<lambda>v. uid v = i) s)))"

section \<open>Routes (routes/authRoutes.js)\<close>

text \<open>
  \<open>router.post("/register", uploadProfilePicture, createAuth)\<close>: the upload middleware
  runs on the file part, if the request has one, and either hands its error to
  \<open>handleMulterError\<close> or sets \<open>req.file\<close> and lets the handler run.
\<close>

definition postRegister ::
  "env \<Rightarrow> nat \<Rightarrow> string \<Rightarrow> store \<Rightarrow> request \<Rightarrow> upfile option \<Rightarrow> response \<times> store" where
  "postRegister e timestamp randomString s req part =
     (case part of
        None \<Rightarrow> createAuth e s (req\<lparr>uploadedFile := None\<rparr>)
      | Some f \<Rightarrow>
          (case uploadProfilePicture timestamp randomString f of
             Inl err \<Rightarrow> (handleMulterError err, s)
           | Inr fname \<Rightarrow> createAuth e s (req\<lparr>uploadedFile := Some fname\<rparr>)))"

section \<open>The list filter in the specification's words\<close>




section \<open>Sample data\<close>

definition env0 :: env where
  "env0 =
     \<lparr>now = 1700000000000, newId = 3, newSalt = ''c2FsdA'', JWT_SECRET = Some ''s3cret'',
      pick = 0, pcre = (\<lambda>p. None)\<rparr>"

definition alice :: user_doc where
  "alice =
     \<lparr>uid = 1, username = ''alice'', email = ''alice@example.com'',
      password = Bcrypt ''YWxpY2U'' ''wonderland1'',
      profilePicture = defaultProfilePicture, role = ''instructor'',
      createdAt = 100, updatedAt = 100\<rparr>"

definition bob :: user_doc where
  "bob =
     \<lparr>uid = 2, username = ''bob'', email = ''bob@example.com'',
      password = Bcrypt ''Ym9i'' ''builder123'',
      profilePicture = defaultProfilePicture, role = ''student'',
      createdAt = 200, updatedAt = 200\<rparr>"

text \<open>An engine that accepts every expression and finds it in every text.\<close>

definition matchAll :: "string \<Rightarrow> (string \<Rightarrow> bool) option" where
  "matchAll p = Some (\<lambda>t. True)"

definition env1 :: env where
  "env1 = env0\<lparr>pcre := matchAll\<rparr>"

definition noBody :: body where
  "noBody = \<lparr>b_username = None, b_email = None, b_password = None, b_role = None\<rparr>"

definition noQuery :: query where
  "noQuery = \<lparr>q_page = None, q_limit = None, q_role = None, q_search = None\<rparr>"

definition aliceId :: string where
  "aliceId = ''000000000000000000000001''"

definition req0 :: request where
  "req0 =
     \<lparr>protocol = ''http'', host = ''localhost:3000'', body = noBody, uploadedFile = None,
      userId = aliceId, query = noQuery\<rparr>"

definition loginBody :: "string \<Rightarrow> string \<Rightarrow> body" where
  "loginBody em pw = noBody\<lparr>b_email := Some em, b_password := Some pw\<rparr>"

definition registerBody :: "string \<Rightarrow> string \<Rightarrow> string \<Rightarrow> body" where
  "registerBody un em pw =
     \<lparr>b_username = Some un, b_email = Some em, b_password = Some pw, b_role = None\<rparr>"

definition bmpFile :: upfile where
  "bmpFile = \<lparr>originalname = ''me.bmp'', mimetype = ''image/bmp'', sizeBytes = 4194304\<rparr>"

definition pngFile :: upfile where
  "pngFile = \<lparr>originalname = ''me.png'', mimetype = ''image/png'', sizeBytes = 4194304\<rparr>"

definition png5MB :: upfile where
  "png5MB = \<lparr>originalname = ''me.png'', mimetype = ''image/png'', sizeBytes = 5242880\<rparr>"

section \<open>Properties\<close>

lemmas sample_defs = env0_def env1_def matchAll_def alice_def bob_def noBody_def noQuery_def
  req0_def loginBody_def registerBody_def bmpFile_def pngFile_def png5MB_def
lemmas string_defs = toLowerCase_def toLowerChar_def trim_def isSpace_def falsy_def str_def
  startsWith_def endsWith_def setEmail_def setUsername_def

subsection \<open>Helper lemmas\<close>

lemma status_handleMulterError:
  "status (handleMulterError e) = 400 \<and> \<not> success (handleMulterError e) \<and>
   error (handleMulterError e) \<noteq> None"
  by (cases e) (simp_all add: handleMulterError_def reply_def)

lemma findOne_None_iff: "findOne P s = None \<longleftrightarrow> (\<forall>u\<in>set s. \<not> P u)"
  by (auto simp: findOne_def find_None_iff)

lemma findOne_Some_holds: "findOne P s = Some u \<Longrightarrow> u \<in> set s \<and> P u"
  by (auto simp: findOne_def find_Some_iff)

lemma findOneAmong_None_iff: "findOneAmong p P s = None \<longleftrightarrow> (\<forall>u\<in>set s. \<not> P u)"
proof -
  have "findOneAmong p P s = None \<longleftrightarrow> filter P s = []"
    by (simp add: findOneAmong_def split: list.splits)
  then show ?thesis
    by (simp add: filter_empty_conv)
qed

lemma findOneAmong_Some_holds:
  assumes "findOneAmong p P s = Some u"
  shows "u \<in> set s \<and> P u"
proof -
  from assms obtain m ms where ms: "filter P s = m # ms"
    and u: "u = (m # ms) ! (p mod length (m # ms))"
    by (auto simp: findOneAmong_def split: list.splits)
  have "p mod length (m # ms) < length (m # ms)"
    by simp
  then have "u \<in> set (m # ms)"
    unfolding u by (rule nth_mem)
  then have "u \<in> set (filter P s)"
    by (simp only: ms)
  then show ?thesis
    by simp
qed

lemma castObjectId_aliceId: "castObjectId aliceId = Some 1"
  by (simp add: castObjectId_def aliceId_def hexDigit_def toLowerChar_def)

lemma castObjectId_1: "castObjectId ''1'' = None"
  by (simp add: castObjectId_def)

lemma findById_None_iff: "findById i s = None \<longleftrightarrow> (\<forall>u\<in>set s. uid u \<noteq> i)"
  by (auto simp: findById_def find_None_iff)

lemma removeFirst_absent: "\<forall>u\<in>set s. \<not> P u \<Longrightarrow> removeFirst P s = s"
  by (induction s) auto

lemma set_removeFirst_subset: "set (removeFirst P s) \<subseteq> set s"
  by (induction s) auto

lemma set_removeFirst_distinct:
  "distinct (map uid s) \<Longrightarrow> set (removeFirst (\<lambda>v. uid v = i) s) = {u \<in> set s. uid u \<noteq> i}"
proof (induction s)
  case Nil
  then show ?case by simp
next
  case (Cons a s)
  then show ?case by (auto simp: image_iff)
qed

lemma deleteKey_absent: "k \<notin> fst ` set (deleteKey k obj)"
  by (auto simp: deleteKey_def)

lemma toJSON_no_password: "''password'' \<notin> fst ` set (toJSON u)"
  by (simp add: toJSON_def deleteKey_absent)

lemma createAuth_user:
  "user (fst (createAuth e s req)) = Some j \<Longrightarrow> \<exists>u. j = toJSON u"
  by (auto simp: createAuth_def Let_def reply_def split: if_splits option.splits)

lemma loginAuth_user:
  "user (fst (loginAuth e s req)) = Some j \<Longrightarrow> \<exists>u. j = toJSON u"
  by (auto simp: loginAuth_def Let_def reply_def split: if_splits option.splits)

lemma updateUserProfile_user:
  "user (fst (updateUserProfile e s req)) = Some j \<Longrightarrow> \<exists>u. j = toJSON u"
  by (auto simp: updateUserProfile_def Let_def reply_def split: if_splits option.splits)

lemma updateProfilePicture_user:
  "user (fst (updateProfilePicture e s req)) = Some j \<Longrightarrow> \<exists>u. j = toJSON u"
  by (auto simp: updateProfilePicture_def Let_def reply_def split: if_splits option.splits)

lemma getSingleUser_user:
  "user (fst (getSingleUser s req)) = Some j \<Longrightarrow> \<exists>u. j = toJSON u"
  by (auto simp: getSingleUser_def reply_def split: option.splits)

lemma deleteKey_absent_pair: "(k, v) \<notin> set (deleteKey k obj)"
  by (simp add: deleteKey_def)

lemma getAllUsers_users:
  "users (fst (getAllUsers e s req)) = Some js \<Longrightarrow> j \<in> set js \<Longrightarrow>
   ''password'' \<notin> fst ` set j"
  by (auto simp: getAllUsers_def Let_def reply_def deleteKey_absent_pair
      split: if_splits option.splits)

lemma postRegister_user:
  "user (fst (postRegister e t rnd s req part)) = Some j \<Longrightarrow> \<exists>u. j = toJSON u"
  by (auto simp: postRegister_def handleMulterError_def reply_def
      dest: createAuth_user split: option.splits sum.splits upload_error.splits if_splits)

lemma showNat_digit: "n < 10 \<Longrightarrow> showNat n = [''0123456789'' ! n]"
  by (simp add: showNat.simps)

lemma showNat_more: "\<not> n < 10 \<Longrightarrow> showNat n = showNat (n div 10) @ [''0123456789'' ! (n mod 10)]"
  by (subst showNat.simps) simp

lemma showNat_1700000000000: "showNat 1700000000000 = ''1700000000000''"
  by (simp add: showNat_digit showNat_more)

lemma extname_me_bmp: "extname ''me.bmp'' = ''.bmp''"
  by (simp add: extname_def lastComponent_def)

lemma parseName_me_bmp: "parseName ''me.bmp'' = ''me''"
  by (simp add: parseName_def extname_me_bmp) (simp add: lastComponent_def)

lemma upload_bmp:
  "uploadProfilePicture 1700000000000 ''0123456789abcdef'' bmpFile =
     Inr ''me-1700000000000-0123456789abcdef.bmp''"
  by (simp add: uploadProfilePicture_def fileFilter_def allowedMimeTypes_def allowedExtensions_def
      fileSize_def filename_def bmpFile_def extname_me_bmp parseName_me_bmp toLowerCase_def
      toLowerChar_def sanitize_def isAlnum_def substring0_def showNat_1700000000000)

lemma emailRegexTest_carol: "emailRegexTest ''carol@example.com''"
  by (simp add: emailRegexTest_def isSpace_def)

lemma setEmail_carol: "setEmail ''carol@example.com'' = ''carol@example.com''"
  by (simp add: string_defs)

lemma setUsername_carol: "setUsername ''carol'' = ''carol''"
  by (simp add: string_defs)

lemma bmp_url_invalid:
  "\<not> profilePictureValidator
     ''http://localhost:3000/uploads/profile-pictures/me-1700000000000-0123456789abcdef.bmp''"
  by (simp add: profilePictureValidator_def urlRegexTest_def startsWith_def endsWith_def)

lemma bmp_url_isValidImageUrl:
  "isValidImageUrl
     ''http://localhost:3000/uploads/profile-pictures/me-1700000000000-0123456789abcdef.bmp''"
  by (simp add: isValidImageUrl_def urlRegexTest_def startsWith_def endsWith_def isLineBreak_def
      toLowerCase_def toLowerChar_def)

lemma extname_me_png: "extname ''me.png'' = ''.png''"
  by (simp add: extname_def lastComponent_def)

lemma parseName_me_png: "parseName ''me.png'' = ''me''"
  by (simp add: parseName_def extname_me_png) (simp add: lastComponent_def)

lemma upload_png:
  "uploadProfilePicture 1700000000000 ''0123456789abcdef'' pngFile =
     Inr ''me-1700000000000-0123456789abcdef.png''"
  by (simp add: uploadProfilePicture_def fileFilter_def allowedMimeTypes_def allowedExtensions_def
      fileSize_def filename_def pngFile_def extname_me_png parseName_me_png toLowerCase_def
      toLowerChar_def sanitize_def isAlnum_def substring0_def showNat_1700000000000)

lemma png_url_valid:
  "profilePictureValidator
     ''http://localhost:3000/uploads/profile-pictures/me-1700000000000-0123456789abcdef.png''"
  by (simp add: profilePictureValidator_def urlRegexTest_def startsWith_def endsWith_def
      isLineBreak_def)






lemma toJSON_select: "deleteKey ''password'' (selectMinusPassword u) = toJSON u"
  by (simp add: selectMinusPassword_def toJSON_def deleteKey_def)


lemma sorted_wrt_drop': "sorted_wrt P xs \<Longrightarrow> sorted_wrt P (drop n xs)"
  by (rule sorted_wrt_drop)



subsection \<open>Returned records\<close>

text \<open>
  C1. Whatever user record a response carries, after registration (the handler alone or
  behind the upload middleware), login, profile update, picture update, retrieval by
  identifier or listing, the record has no key \<open>password\<close>. The listing is covered for
  every search text and every engine of the store.
\<close>

theorem returned_records_omit_password:
  "(\<forall>j. user (fst (createAuth e s req)) = Some j \<longrightarrow> ''password'' \<notin> fst ` set j) \<and>
   (\<forall>j. user (fst (postRegister e t rnd s req part)) = Some j \<longrightarrow> ''password'' \<notin> fst ` set j) \<and>
   (\<forall>j. user (fst (loginAuth e s req)) = Some j \<longrightarrow> ''password'' \<notin> fst ` set j) \<and>
   (\<forall>j. user (fst (updateUserProfile e s req)) = Some j \<longrightarrow> ''password'' \<notin> fst ` set j) \<and>
   (\<forall>j. user (fst (updateProfilePicture e s req)) = Some j \<longrightarrow> ''password'' \<notin> fst ` set j) \<and>
   (\<forall>j. user (fst (getSingleUser s req)) = Some j \<longrightarrow> ''password'' \<notin> fst ` set j) \<and>
   (\<forall>js. users (fst (getAllUsers e s req)) = Some js \<longrightarrow>
      (\<forall>j\<in>set js. ''password'' \<notin> fst ` set j))"
proof (intro conjI allI impI ballI)
  fix j assume "user (fst (createAuth e s req)) = Some j"
  then show "''password'' \<notin> fst ` set j"
    using createAuth_user toJSON_no_password by blast
next
  fix j assume "user (fst (postRegister e t rnd s req part)) = Some j"
  then show "''password'' \<notin> fst ` set j"
    using postRegister_user toJSON_no_password by blast
next
  fix j assume "user (fst (loginAuth e s req)) = Some j"
  then show "''password'' \<notin> fst ` set j"
    using loginAuth_user toJSON_no_password by blast
next
  fix j assume "user (fst (updateUserProfile e s req)) = Some j"
  then show "''password'' \<notin> fst ` set j"
    using updateUserProfile_user toJSON_no_password by blast
next
  fix j assume "user (fst (updateProfilePicture e s req)) = Some j"
  then show "''password'' \<notin> fst ` set j"
    using updateProfilePicture_user toJSON_no_password by blast
next
  fix j assume "user (fst (getSingleUser s req)) = Some j"
  then show "''password'' \<notin> fst ` set j"
    using getSingleUser_user toJSON_no_password by blast
next
  fix js j
  assume "users (fst (getAllUsers e s req)) = Some js" "j \<in> set js"
  then show "''password'' \<notin> fst ` set j"
    by (rule getAllUsers_users)
qed

lemma list_with_anchor:
  "users (fst (getAllUsers env1 [alice, bob]
     (req0\<lparr>query := noQuery\<lparr>q_search := Some ''^a''\<rparr>\<rparr>))) =
     Some [toJSON bob, toJSON alice]"
  by (simp add: getAllUsers_def Let_def compileRegex_def parseRegex_def isMeta_def
      matchesQuery_def applyLimit_def sortNewestFirst_def reply_def toJSON_select falsy_def
      str_def env0_def env1_def matchAll_def req0_def noQuery_def alice_def bob_def)

theorem returned_records_omit_password_witness:
  "user (fst (getSingleUser [alice, bob] req0)) = Some (toJSON alice) \<and>
   ''password'' \<notin> fst ` set (toJSON alice) \<and>
   users (fst (getAllUsers env1 [alice, bob]
     (req0\<lparr>query := noQuery\<lparr>q_search := Some ''^a''\<rparr>\<rparr>))) =
     Some [toJSON bob, toJSON alice] \<and>
   ''password'' \<notin> fst ` set (toJSON bob)"
proof -
  have a: "user (fst (getSingleUser [alice, bob] req0)) = Some (toJSON alice)"
    using castObjectId_aliceId
    by (simp add: getSingleUser_def findById_def reply_def req0_def alice_def)
  have b: "''password'' \<notin> fst ` set (toJSON alice)"
    using returned_records_omit_password [of env0 "[alice, bob]" req0 0 "[]" None] a
    by blast
  have c: "''password'' \<notin> fst ` set (toJSON bob)"
    using returned_records_omit_password [of env1 "[alice, bob]"
        "req0\<lparr>query := noQuery\<lparr>q_search := Some ''^a''\<rparr>\<rparr>" 0 "[]" None]
      list_with_anchor
    by simp
  show ?thesis
    using a b c list_with_anchor by simp
qed

subsection \<open>Registration\<close>

text \<open>
  C3, at a BMP upload. The file passes the filter and the size limit, and the URL built for
  it passes \<open>isValidImageUrl\<close>; the validator of the schema knows neither \<open>bmp\<close> nor
  \<open>tiff\<close>, so the registration ends with status 400 and nothing is stored.
\<close>

theorem register_bmp_upload_rejected:
  "fileFilter bmpFile = Inr True \<and>
   sizeBytes bmpFile < fileSize \<and>
   isValidImageUrl
     ''http://localhost:3000/uploads/profile-pictures/me-1700000000000-0123456789abcdef.bmp'' \<and>
   postRegister env0 1700000000000 ''0123456789abcdef'' []
     (req0\<lparr>body := registerBody ''carol'' ''carol@example.com'' ''carolpass1''\<rparr>) (Some bmpFile) =
     ((reply 400 False ''Validation error.'')
        \<lparr>errors := Some [Custom
           ''http://localhost:3000/uploads/profile-pictures/me-1700000000000-0123456789abcdef.bmp is not a valid image URL!'']\<rparr>,
      [])"
proof -
  have a: "fileFilter bmpFile = Inr True"
    by (simp add: fileFilter_def allowedMimeTypes_def allowedExtensions_def bmpFile_def
        extname_me_bmp toLowerCase_def toLowerChar_def)
  have b: "sizeBytes bmpFile < fileSize"
    by (simp add: bmpFile_def fileSize_def)
  have c: "createAuth env0 []
     (req0\<lparr>body := registerBody ''carol'' ''carol@example.com'' ''carolpass1'',
           uploadedFile := Some ''me-1700000000000-0123456789abcdef.bmp''\<rparr>) =
     ((reply 400 False ''Validation error.'')
        \<lparr>errors := Some [Custom
           ''http://localhost:3000/uploads/profile-pictures/me-1700000000000-0123456789abcdef.bmp is not a valid image URL!'']\<rparr>,
      [])"
    using bmp_url_invalid
    by (simp add: createAuth_def findOneAmong_def falsy_def str_def emailRegexTest_carol
        setEmail_carol setUsername_carol pictureOf_def generateImageUrl_def validateNew_def
        validateUsername_def validateEmail_def validatePassword_def validateProfilePicture_def
        validateRole_def roleEnum_def req0_def registerBody_def noBody_def env0_def)
  show ?thesis
    using a b c bmp_url_isValidImageUrl by (simp add: postRegister_def upload_bmp)
qed

text \<open>The same registration with a PNG file is accepted and stores the URL.\<close>

lemma register_png_upload_accepted:
  "status (fst (postRegister env0 1700000000000 ''0123456789abcdef'' []
     (req0\<lparr>body := registerBody ''carol'' ''carol@example.com'' ''carolpass1''\<rparr>) (Some pngFile))) =
     201 \<and>
   map profilePicture (snd (postRegister env0 1700000000000 ''0123456789abcdef'' []
     (req0\<lparr>body := registerBody ''carol'' ''carol@example.com'' ''carolpass1''\<rparr>) (Some pngFile))) =
     [''http://localhost:3000/uploads/profile-pictures/me-1700000000000-0123456789abcdef.png'']"
proof -
  have "createAuth env0 []
     (req0\<lparr>body := registerBody ''carol'' ''carol@example.com'' ''carolpass1'',
           uploadedFile := Some ''me-1700000000000-0123456789abcdef.png''\<rparr>) =
     ((reply 201 True ''User created successfully.'')
        \<lparr>user := Some (toJSON
           \<lparr>uid = 3, username = ''carol'', email = ''carol@example.com'',
            password = Bcrypt ''c2FsdA'' ''carolpass1'',
            profilePicture =
              ''http://localhost:3000/uploads/profile-pictures/me-1700000000000-0123456789abcdef.png'',
            role = ''student'', createdAt = 1700000000000, updatedAt = 1700000000000\<rparr>)\<rparr>,
      [\<lparr>uid = 3, username = ''carol'', email = ''carol@example.com'',
            password = Bcrypt ''c2FsdA'' ''carolpass1'',
            profilePicture =
              ''http://localhost:3000/uploads/profile-pictures/me-1700000000000-0123456789abcdef.png'',
            role = ''student'', createdAt = 1700000000000, updatedAt = 1700000000000\<rparr>])"
    using png_url_valid
    by (simp add: createAuth_def findOneAmong_def falsy_def str_def emailRegexTest_carol
        setEmail_carol setUsername_carol pictureOf_def generateImageUrl_def validateNew_def
        validateUsername_def validateEmail_def validatePassword_def validateProfilePicture_def
        validateRole_def roleEnum_def req0_def registerBody_def noBody_def env0_def
        duplicateKey_def bcrypt_hash_def Let_def)
  then show ?thesis
    by (simp add: postRegister_def upload_png reply_def)
qed

text \<open>
  C4, at a registration whose email differs from bob's only in case and whose username
  nobody has. The lookup compares the stored emails with the normalised text and finds
  bob, so the registration is refused as a duplicate email; the comparison that picks the
  message sees two different texts and names the username. No other record matches, so
  the choice of the store plays no part.
\<close>

theorem register_email_other_case_names_username:
  "username alice \<noteq> setUsername ''carol'' \<and> username bob \<noteq> setUsername ''carol'' \<and>
   email bob = setEmail ''Bob@Example.com'' \<and>
   createAuth (env0\<lparr>pick := p\<rparr>) [alice, bob]
     (req0\<lparr>body := registerBody ''carol'' ''Bob@Example.com'' ''password123''\<rparr>) =
     (reply 400 False ''Username is already taken.'', [alice, bob])"
  by (simp add: createAuth_def findOneAmong_def emailRegexTest_def sample_defs string_defs)

text \<open>
  What does hold, for a registration that passes the input checks against a store whose
  records are normalised (as the setters of the schema leave them), whichever matching
  record the store returns: if a record holds the email of the request and none holds its
  trimmed username, the message names the email; if a record holds the username and none
  holds the email, the message names the username; and whenever either is held the
  registration is rejected with status 400, one of the two messages, and an unchanged
  store.
\<close>

lemma register_conflict_single_field:
  assumes given: "\<not> falsy (b_username (body req))" "\<not> falsy (b_email (body req))"
      "\<not> falsy (b_password (body req))"
    and pw: "9 \<le> length (str (b_password (body req)))"
    and em: "emailRegexTest (str (b_email (body req)))"
    and norm: "\<forall>u\<in>set s. setEmail (email u) = email u \<and> setUsername (username u) = username u"
  shows "((\<exists>u\<in>set s. email u = str (b_email (body req))) \<and>
          (\<forall>u\<in>set s. username u \<noteq> setUsername (str (b_username (body req)))) \<longrightarrow>
            createAuth e s req = (reply 400 False ''User with this email already exists.'', s)) \<and>
         ((\<exists>u\<in>set s. username u = str (b_username (body req))) \<and>
          (\<forall>u\<in>set s. email u \<noteq> str (b_email (body req))) \<longrightarrow>
            createAuth e s req = (reply 400 False ''Username is already taken.'', s)) \<and>
         ((\<exists>u\<in>set s. email u = str (b_email (body req)) \<or>
                     username u = str (b_username (body req))) \<longrightarrow>
            snd (createAuth e s req) = s \<and> status (fst (createAuth e s req)) = 400 \<and>
            (message (fst (createAuth e s req)) = ''User with this email already exists.'' \<or>
             message (fst (createAuth e s req)) = ''Username is already taken.''))"
proof -
  let ?em = "str (b_email (body req))" and ?un = "str (b_username (body req))"
  let ?flt = "\<lambda>u. email u = setEmail ?em \<or> username u = setUsername ?un"
  have step: "createAuth e s req =
      (case findOneAmong (pick e) ?flt s of
         Some existingUser \<Rightarrow>
           (reply 400 False
              (if email existingUser = ?em then ''User with this email already exists.''
               else ''Username is already taken.''), s)
       | None \<Rightarrow> createAuth e s req)"
    using given pw em by (simp add: createAuth_def Let_def split: option.splits)
  have hit: "findOneAmong (pick e) ?flt s \<noteq> None"
    if "\<exists>u\<in>set s. email u = ?em \<or> username u = ?un"
  proof -
    from that obtain u where u: "u \<in> set s" "email u = ?em \<or> username u = ?un"
      by blast
    from u(1) norm have "setEmail (email u) = email u" "setUsername (username u) = username u"
      by auto
    with u(2) have "?flt u"
      by auto
    with u(1) show ?thesis
      by (auto simp: findOneAmong_None_iff)
  qed
  have a: "createAuth e s req = (reply 400 False ''User with this email already exists.'', s)"
    if "\<exists>u\<in>set s. email u = ?em" "\<forall>u\<in>set s. username u \<noteq> setUsername ?un"
  proof -
    from that(1) obtain r where r: "findOneAmong (pick e) ?flt s = Some r"
      using hit by blast
    then have "r \<in> set s" "?flt r"
      by (auto dest: findOneAmong_Some_holds)
    moreover from that(1) norm have "setEmail ?em = ?em"
      by auto
    ultimately have "email r = ?em"
      using that(2) by auto
    with r step show ?thesis by simp
  qed
  have b: "createAuth e s req = (reply 400 False ''Username is already taken.'', s)"
    if "\<exists>u\<in>set s. username u = ?un" "\<forall>u\<in>set s. email u \<noteq> ?em"
  proof -
    from that(1) obtain r where r: "findOneAmong (pick e) ?flt s = Some r"
      using hit by blast
    then have "r \<in> set s"
      by (auto dest: findOneAmong_Some_holds)
    then have "email r \<noteq> ?em"
      using that(2) by auto
    with r step show ?thesis by simp
  qed
  have c: "snd (createAuth e s req) = s \<and> status (fst (createAuth e s req)) = 400 \<and>
            (message (fst (createAuth e s req)) = ''User with this email already exists.'' \<or>
             message (fst (createAuth e s req)) = ''Username is already taken.'')"
    if "\<exists>u\<in>set s. email u = ?em \<or> username u = ?un"
  proof -
    from that obtain r where r: "findOneAmong (pick e) ?flt s = Some r"
      using hit by blast
    with step show ?thesis by (simp add: reply_def)
  qed
  show ?thesis
    using a b c by blast
qed

subsection \<open>Login\<close>

text \<open>
  C2. A login whose normalised email no record holds and a login whose email is found but
  whose password the stored digest does not verify get the same response: status 401 and
  the message \<open>Invalid email or password.\<close>, whatever the stores, requests and clocks.
\<close>

theorem login_failures_indistinguishable:
  assumes given1: "\<not> falsy (b_email (body req1))" "\<not> falsy (b_password (body req1))"
    and given2: "\<not> falsy (b_email (body req2))" "\<not> falsy (b_password (body req2))"
    and unknown: "\<forall>u\<in>set s1. email u \<noteq> setEmail (toLowerCase (str (b_email (body req1))))"
    and wrong: "findOne (\<lambda>u. email u = setEmail (toLowerCase (str (b_email (body req2))))) s2 = Some u2"
      "\<not> bcrypt_compare (str (b_password (body req2))) (password u2)"
  shows "fst (loginAuth e1 s1 req1) = fst (loginAuth e2 s2 req2) \<and>
         status (fst (loginAuth e1 s1 req1)) = 401 \<and>
         message (fst (loginAuth e1 s1 req1)) = ''Invalid email or password.'' \<and>
         fst (loginAuth e1 s1 req1) = reply 401 False ''Invalid email or password.''"
proof -
  have "findOne (\<lambda>u. email u = setEmail (toLowerCase (str (b_email (body req1))))) s1 = None"
    using unknown by (simp add: findOne_None_iff)
  then have r1: "fst (loginAuth e1 s1 req1) = reply 401 False ''Invalid email or password.''"
    using given1 by (simp add: loginAuth_def Let_def)
  have r2: "fst (loginAuth e2 s2 req2) = reply 401 False ''Invalid email or password.''"
    using given2 wrong by (simp add: loginAuth_def Let_def comparePassword_def)
  show ?thesis
    using r1 r2 by (simp add: reply_def)
qed

theorem login_failures_indistinguishable_witness:
  "fst (loginAuth env0 [alice, bob] (req0\<lparr>body := loginBody ''carol@example.com'' ''whatever1''\<rparr>)) =
   fst (loginAuth env0 [alice, bob] (req0\<lparr>body := loginBody ''Alice@Example.com'' ''wonderland2''\<rparr>)) \<and>
   status (fst (loginAuth env0 [alice, bob] (req0\<lparr>body := loginBody ''carol@example.com'' ''whatever1''\<rparr>))) = 401"
proof -
  have g1: "\<not> falsy (b_email (body (req0\<lparr>body := loginBody ''carol@example.com'' ''whatever1''\<rparr>)))"
    "\<not> falsy (b_password (body (req0\<lparr>body := loginBody ''carol@example.com'' ''whatever1''\<rparr>)))"
    by (simp_all add: sample_defs falsy_def)
  have g2: "\<not> falsy (b_email (body (req0\<lparr>body := loginBody ''Alice@Example.com'' ''wonderland2''\<rparr>)))"
    "\<not> falsy (b_password (body (req0\<lparr>body := loginBody ''Alice@Example.com'' ''wonderland2''\<rparr>)))"
    by (simp_all add: sample_defs falsy_def)
  have unknown: "\<forall>u\<in>set [alice, bob]. email u \<noteq>
      setEmail (toLowerCase (str (b_email (body (req0\<lparr>body := loginBody ''carol@example.com'' ''whatever1''\<rparr>)))))"
    by (simp add: sample_defs string_defs)
  have found: "findOne (\<lambda>u. email u =
      setEmail (toLowerCase (str (b_email (body (req0\<lparr>body := loginBody ''Alice@Example.com'' ''wonderland2''\<rparr>))))))
      [alice, bob] = Some alice"
    by (simp add: findOne_def sample_defs string_defs)
  have wrong: "\<not> bcrypt_compare (str (b_password (body (req0\<lparr>body := loginBody ''Alice@Example.com'' ''wonderland2''\<rparr>))))
      (password alice)"
    by (simp add: bcrypt_compare_def sample_defs str_def)
  show ?thesis
    using login_failures_indistinguishable [OF g1 g2 unknown found wrong, of env0 env0]
    by blast
qed

text \<open>
  C10. A login without an email or without a password (absent or empty) is answered with
  status 400 and \<open>Email and password are required.\<close>; the response is the same for every
  store, so no lookup decides it, and the store is returned as it was.
\<close>

theorem login_missing_field:
  assumes "falsy (b_email (body req)) \<or> falsy (b_password (body req))"
  shows "loginAuth e s req = (reply 400 False ''Email and password are required.'', s) \<and>
         fst (loginAuth e s req) = fst (loginAuth e s' req) \<and>
         status (fst (loginAuth e s req)) = 400 \<and>
         message (fst (loginAuth e s req)) = ''Email and password are required.'' \<and>
         snd (loginAuth e s req) = s"
  using assms by (auto simp: loginAuth_def Let_def reply_def)

theorem login_missing_field_witness:
  "falsy (b_password (body (req0\<lparr>body := loginBody ''alice@example.com'' ''''\<rparr>))) \<and>
   loginAuth env0 [alice, bob] (req0\<lparr>body := loginBody ''alice@example.com'' ''''\<rparr>) =
     (reply 400 False ''Email and password are required.'', [alice, bob])"
proof -
  have h: "falsy (b_email (body (req0\<lparr>body := loginBody ''alice@example.com'' ''''\<rparr>))) \<or>
           falsy (b_password (body (req0\<lparr>body := loginBody ''alice@example.com'' ''''\<rparr>)))"
    by (simp add: sample_defs falsy_def)
  show ?thesis
    using login_missing_field [OF h, of env0 "[alice, bob]" "[]"]
    by (simp add: sample_defs falsy_def)
qed

text \<open>
  C5. A login answered with status 200 carries a token whose payload is the identifier,
  email, username and role of the record that the lookup found and whose password
  verified; the token is signed with \<open>JWT_SECRET\<close> (with the built-in default when the
  variable is unset or empty) and expires 24 hours after it was issued.
\<close>

theorem login_token:
  assumes "loginAuth e s req = (r, s')" and "status r = 200"
  shows "\<exists>u tk. findOne (\<lambda>u. email u = setEmail (toLowerCase (str (b_email (body req))))) s = Some u \<and>
           u \<in> set s \<and>
           bcrypt_compare (str (b_password (body req))) (password u) \<and>
           token r = Some tk \<and>
           payload tk = [(''userId'', JId (uid u)), (''email'', JStr (email u)),
                         (''username'', JStr (username u)), (''role'', JStr (role u))] \<and>
           signedWith tk = (case JWT_SECRET e of None \<Rightarrow> ''your_jwt_secret''
                            | Some k \<Rightarrow> if k = [] then ''your_jwt_secret'' else k) \<and>
           iat tk = now e div 1000 \<and>
           expiresAt tk = iat tk + 24 * 60 * 60 \<and>
           s' = s"
proof (cases "findOne (\<lambda>u. email u = setEmail (toLowerCase (str (b_email (body req))))) s")
  case None
  then show ?thesis
    using assms by (auto simp: loginAuth_def Let_def reply_def split: if_splits)
next
  case (Some u)
  then have "u \<in> set s" by (auto dest: findOne_Some_holds)
  then show ?thesis
    using assms Some
    by (auto simp: loginAuth_def Let_def reply_def comparePassword_def jwt_sign_def falsy_def str_def
        split: if_splits option.splits)
qed

lemma login_alice:
  "loginAuth env0 [alice, bob] (req0\<lparr>body := loginBody ''Alice@Example.com'' ''wonderland1''\<rparr>) =
    ((reply 200 True ''Login successful.'')
       \<lparr>user := Some (toJSON alice),
        token := Some \<lparr>payload = [(''userId'', JId 1), (''email'', JStr ''alice@example.com''),
                         (''username'', JStr ''alice''), (''role'', JStr ''instructor'')],
                       signedWith = ''s3cret'', iat = 1700000000, expiresAt = 1700086400\<rparr>\<rparr>,
     [alice, bob])"
  by (simp add: loginAuth_def findOne_def comparePassword_def bcrypt_compare_def jwt_sign_def
      sample_defs string_defs)

theorem login_token_witness:
  "status (fst (loginAuth env0 [alice, bob] (req0\<lparr>body := loginBody ''Alice@Example.com'' ''wonderland1''\<rparr>))) = 200 \<and>
   (\<exists>tk. token (fst (loginAuth env0 [alice, bob] (req0\<lparr>body := loginBody ''Alice@Example.com'' ''wonderland1''\<rparr>))) = Some tk \<and>
     signedWith tk = ''s3cret'' \<and> expiresAt tk = iat tk + 86400)"
proof -
  have st: "status (reply 200 True ''Login successful.''
       \<lparr>user := Some (toJSON alice),
        token := Some \<lparr>payload = [(''userId'', JId 1), (''email'', JStr ''alice@example.com''),
                         (''username'', JStr ''alice''), (''role'', JStr ''instructor'')],
                       signedWith = ''s3cret'', iat = 1700000000, expiresAt = 1700086400\<rparr>\<rparr>) = 200"
    by (simp add: reply_def)
  show ?thesis
    using login_token [OF login_alice st]
    by (simp add: login_alice reply_def)
qed

subsection \<open>Profile update\<close>

text \<open>
  C7, at an update that re-supplies the record's own email in another case. The guard
  compares the text of the request with the stored, lower-cased email and finds them
  different; the lookup then compares the stored emails with the lower-cased text and
  returns the record that is being updated; the handler reports a conflict although no
  other record holds the email.
\<close>

theorem update_own_email_other_case_conflict:
  "castObjectId aliceId = Some 1 \<and>
   findById 1 [alice, bob] = Some alice \<and>
   email alice = ''alice@example.com'' \<and>
   email bob \<noteq> setEmail ''Alice@Example.com'' \<and>
   updateUserProfile env0 [alice, bob]
     (req0\<lparr>userId := aliceId, body := noBody\<lparr>b_email := Some ''Alice@Example.com''\<rparr>\<rparr>) =
     (reply 400 False ''Email is already taken.'', [alice, bob])"
  using castObjectId_aliceId
  by (simp add: updateUserProfile_def findById_def findOne_def sample_defs string_defs)

text \<open>With the stored spelling of its own email and username the update goes through.\<close>

lemma update_own_values_accepted:
  "updateUserProfile env0 [alice, bob]
     (req0\<lparr>userId := aliceId, body := noBody\<lparr>b_email := Some ''alice@example.com'',
        b_username := Some ''alice''\<rparr>\<rparr>) =
     ((reply 200 True ''Profile updated successfully.'') \<lparr>user := Some (toJSON alice)\<rparr>,
      [alice, bob])"
  using castObjectId_aliceId
  by (simp add: updateUserProfile_def findById_def findOne_def sample_defs string_defs
      pictureOf_def validateModified_def validateUsername_def validateEmail_def
      emailRegexTest_def validateProfilePicture_def duplicateKey_def Let_def)

text \<open>
  When the email of the request is already in the form the setters give it, a reported
  email conflict does come from another record.
\<close>

lemma update_conflict_other_record:
  assumes "castObjectId (userId req) = Some i" "findById i s = Some u"
    and "message (fst (updateUserProfile e s req)) = ''Email is already taken.''"
    and "setEmail (str (b_email (body req))) = str (b_email (body req))"
  shows "\<exists>v\<in>set s. v \<noteq> u \<and> email v = str (b_email (body req))"
proof -
  let ?em = "str (b_email (body req))"
  have guard: "?em \<noteq> email u \<and> findOne (\<lambda>v. email v = setEmail ?em) s \<noteq> None"
    using assms(1,2,3)
    by (auto simp: updateUserProfile_def Let_def reply_def split: if_splits)
  then obtain v where "findOne (\<lambda>v. email v = setEmail ?em) s = Some v"
    by blast
  then have v: "v \<in> set s" "email v = setEmail ?em"
    by (auto dest: findOne_Some_holds)
  from v(2) assms(4) have "email v = ?em"
    by simp
  moreover from this guard have "v \<noteq> u"
    by auto
  ultimately show ?thesis
    using v(1) by blast
qed

subsection \<open>Listing\<close>




text \<open>With limit 0 the store sets no limit and the division has no finite result.\<close>

lemma list_limit_zero:
  "getAllUsers env0 [alice, bob] (req0\<lparr>query := noQuery\<lparr>q_limit := Some 0\<rparr>\<rparr>) =
     ((reply 200 True ''Users retrieved successfully.'')
       \<lparr>users := Some [toJSON bob, toJSON alice],
        pagination := Some \<lparr>currentPage = 1, totalPages = Infinity, totalUsers = 2,
                             hasNextPage = True, hasPrevPage = False\<rparr>\<rparr>, [alice, bob])"
  by (simp add: getAllUsers_def Let_def req0_def noQuery_def str_def compileRegex_def
      parseRegex_def matchesQuery_def falsy_def applyLimit_def sortNewestFirst_def ceilDiv_def
      toJSON_select alice_def bob_def)

subsection \<open>Deletion\<close>

text \<open>
  C9 as stated fails: the text \<open>1\<close> is not an identifier, no record can have it, and the
  deletion is answered with the internal error, not with not-found.
\<close>

theorem deleteUser_malformed_id_counterexample:
  "castObjectId ''1'' = None \<and>
   deleteUser [alice, bob] (req0\<lparr>userId := ''1''\<rparr>) =
     (reply 500 False ''Internal server error.'', [alice, bob])"
  by (simp add: deleteUser_def castObjectId_1)

text \<open>
  C9, amended. In a store whose identifiers are distinct, for a request whose identifier
  is well-formed (24 hexadecimal digits): deleting an identifier that a record has reports
  success and leaves exactly the other records; deleting one that no record has reports
  not-found and leaves the store as it is; and a second deletion of the same identifier
  reports not-found and changes nothing. For a text that is not a well-formed identifier,
  the deletion reports the internal error and leaves the store as it is.
\<close>

theorem deleteUser_removes_or_not_found:
  assumes ids: "distinct (map uid s)"
  shows "(\<forall>i. castObjectId (userId req) = Some i \<longrightarrow>
            ((\<exists>u\<in>set s. uid u = i) \<longrightarrow>
               fst (deleteUser s req) = reply 200 True ''User deleted successfully.'' \<and>
               set (snd (deleteUser s req)) = {u \<in> set s. uid u \<noteq> i}) \<and>
            ((\<forall>u\<in>set s. uid u \<noteq> i) \<longrightarrow>
               deleteUser s req = (reply 404 False ''User not found.'', s)) \<and>
            deleteUser (snd (deleteUser s req)) req =
               (reply 404 False ''User not found.'', snd (deleteUser s req))) \<and>
         (castObjectId (userId req) = None \<longrightarrow>
            deleteUser s req = (reply 500 False ''Internal server error.'', s))"
proof -
  have a: "fst (deleteUser s req) = reply 200 True ''User deleted successfully.'' \<and>
      set (snd (deleteUser s req)) = {u \<in> set s. uid u \<noteq> i}"
    if i: "castObjectId (userId req) = Some i" and ex: "\<exists>u\<in>set s. uid u = i" for i
  proof -
    from ex have "findById i s \<noteq> None"
      by (simp add: findById_None_iff)
    then show ?thesis
      using ids i by (auto simp: deleteUser_def set_removeFirst_distinct)
  qed
  have b: "deleteUser s req = (reply 404 False ''User not found.'', s)"
    if i: "castObjectId (userId req) = Some i" and no: "\<forall>u\<in>set s. uid u \<noteq> i" for i
  proof -
    from no have "findById i s = None"
      by (simp add: findById_None_iff)
    with i show ?thesis
      by (simp add: deleteUser_def)
  qed
  have c: "deleteUser (snd (deleteUser s req)) req =
      (reply 404 False ''User not found.'', snd (deleteUser s req))"
    if i: "castObjectId (userId req) = Some i" for i
  proof -
    have gone: "\<forall>u\<in>set (snd (deleteUser s req)). uid u \<noteq> i"
    proof (cases "findById i s")
      case None
      then have "\<forall>u\<in>set s. uid u \<noteq> i"
        by (simp add: findById_None_iff)
      with None i show ?thesis by (simp add: deleteUser_def)
    next
      case (Some u)
      then show ?thesis using ids i by (simp add: deleteUser_def set_removeFirst_distinct)
    qed
    then have "findById i (snd (deleteUser s req)) = None"
      by (simp add: findById_None_iff)
    with i show ?thesis
      by (simp add: deleteUser_def)
  qed
  have e: "deleteUser s req = (reply 500 False ''Internal server error.'', s)"
    if "castObjectId (userId req) = None"
    using that by (simp add: deleteUser_def)
  show ?thesis
    using a b c e by blast
qed

theorem deleteUser_removes_or_not_found_witness:
  "distinct (map uid [alice, bob]) \<and>
   castObjectId (userId req0) = Some 1 \<and>
   deleteUser [alice, bob] req0 = (reply 200 True ''User deleted successfully.'', [bob]) \<and>
   deleteUser [bob] req0 = (reply 404 False ''User not found.'', [bob])"
proof -
  have d: "distinct (map uid [alice, bob])"
    by (simp add: alice_def bob_def)
  have i: "castObjectId (userId req0) = Some 1"
    using castObjectId_aliceId by (simp add: req0_def)
  have del: "deleteUser [alice, bob] req0 =
      (reply 200 True ''User deleted successfully.'', [bob])"
    using i by (simp add: deleteUser_def findById_def alice_def bob_def)
  show ?thesis
    using deleteUser_removes_or_not_found [OF d, of req0] d i del
    by simp
qed

subsection \<open>Upload handler\<close>

text \<open>
  C8, at a PNG file of exactly 5 * 1024 * 1024 bytes. Its MIME type and its extension are
  on the allow-lists and it is not larger than 5 MB, but the upload stops when the bytes
  read reach the limit: the middleware reports \<open>LIMIT_FILE_SIZE\<close>, and the error handler
  answers with status 400 and the message that names 5MB as the maximum size allowed.
\<close>

theorem upload_exactly_5MB_rejected:
  "mimetype png5MB \<in> set allowedMimeTypes \<and>
   toLowerCase (extname (originalname png5MB)) \<in> set allowedExtensions \<and>
   sizeBytes png5MB = 5 * 1024 * 1024 \<and>
   uploadProfilePicture 1700000000000 ''0123456789abcdef'' png5MB =
     Inl (MulterError ''LIMIT_FILE_SIZE'') \<and>
   handleMulterError (MulterError ''LIMIT_FILE_SIZE'') =
     (reply 400 False ''File size too large. Maximum size allowed is 5MB.'')
       \<lparr>error := Some ''FILE_TOO_LARGE''\<rparr>"
  by (simp add: uploadProfilePicture_def fileFilter_def allowedMimeTypes_def
      allowedExtensions_def fileSize_def png5MB_def extname_me_png toLowerCase_def
      toLowerChar_def handleMulterError_def)

text \<open>
  What does hold: the middleware accepts the file exactly when its MIME type is on the
  allow-list, the lower-cased extension of its name is on the allow-list and it carries
  fewer than 5 * 1024 * 1024 bytes; a file of type \<open>application/pdf\<close> is rejected whatever
  its name; and every rejection is answered with status 400, \<open>success\<close> false and an
  error code.
\<close>

lemma upload_accepted_iff_under_limit:
  "((\<exists>fname. uploadProfilePicture t r f = Inr fname) \<longleftrightarrow>
      (mimetype f \<in> {''image/jpeg'', ''image/jpg'', ''image/png'', ''image/gif'', ''image/webp'',
                      ''image/bmp'', ''image/tiff''} \<and>
       toLowerCase (extname (originalname f)) \<in>
         {''.jpg'', ''.jpeg'', ''.png'', ''.gif'', ''.webp'', ''.bmp'', ''.tiff''} \<and>
       sizeBytes f < 5 * 1024 * 1024)) \<and>
   (mimetype f = ''application/pdf'' \<longrightarrow> (\<exists>e. uploadProfilePicture t r f = Inl e)) \<and>
   (\<forall>e. uploadProfilePicture t r f = Inl e \<longrightarrow>
      status (handleMulterError e) = 400 \<and> \<not> success (handleMulterError e) \<and>
      error (handleMulterError e) \<noteq> None)"
proof (intro conjI)
  show "(\<exists>fname. uploadProfilePicture t r f = Inr fname) \<longleftrightarrow>
      (mimetype f \<in> {''image/jpeg'', ''image/jpg'', ''image/png'', ''image/gif'', ''image/webp'',
                      ''image/bmp'', ''image/tiff''} \<and>
       toLowerCase (extname (originalname f)) \<in>
         {''.jpg'', ''.jpeg'', ''.png'', ''.gif'', ''.webp'', ''.bmp'', ''.tiff''} \<and>
       sizeBytes f < 5 * 1024 * 1024)"
    by (auto simp: uploadProfilePicture_def fileFilter_def allowedMimeTypes_def
        allowedExtensions_def fileSize_def Let_def)
  show "mimetype f = ''application/pdf'' \<longrightarrow> (\<exists>e. uploadProfilePicture t r f = Inl e)"
    by (simp add: uploadProfilePicture_def fileFilter_def allowedMimeTypes_def Let_def)
  show "\<forall>e. uploadProfilePicture t r f = Inl e \<longrightarrow>
      status (handleMulterError e) = 400 \<and> \<not> success (handleMulterError e) \<and>
      error (handleMulterError e) \<noteq> None"
    using status_handleMulterError by blast
qed

end
